theory Spec2Isabelle
  imports Complex_Main
begin

section \<open>Values\<close>

text \<open>
  A JavaScript number as the handlers see it. \<open>Number(req.params.x)\<close> is the language's
  own conversion of the path parameter; its result is the input of the handler models below.
  A finite double is a rational (the two zeros are identified: both are falsy and both are
  \<open>===\<close> to 0), \<open>Infinite True\<close> is \<open>Infinity\<close> and \<open>Infinite False\<close> is \<open>-Infinity\<close>.
\<close>

datatype number = NaN | Finite rat | Infinite bool

text \<open>Truthiness of a number: \<open>!n\<close> holds exactly for \<open>NaN\<close> and zero.\<close>

fun truthy :: "number \<Rightarrow> bool" where
  "truthy NaN = False"
| "truthy (Finite r) = (r \<noteq> 0)"
| "truthy (Infinite b) = True"

text \<open>
  \<open>x.id === n\<close> where \<open>x.id\<close> is an identifier of the upstream data (an integer) and
  \<open>n\<close> a parsed number: \<open>NaN\<close> is equal to nothing.
\<close>

definition strict_eq :: "int \<Rightarrow> number \<Rightarrow> bool" where
  "strict_eq i n = (n = Finite (of_int i))"

text \<open>
  A statistic of a raw player is passed through as it is: a JSON primitive, or
  \<open>undefined\<close> when the upstream record has no such field.
\<close>

datatype jsvalue = JUndefined | JNull | JBool bool | JNumber rat | JString string

section \<open>Data model\<close>

record team =
  t_id :: int
  t_name :: string
  strength_attack_home :: int
  strength_attack_away :: int
  strength_defence_home :: int
  strength_defence_away :: int

record elementType =
  et_id :: int
  singular_name_short :: string

record rawPlayer =
  p_id :: int
  p_web_name :: jsvalue
  p_first_name :: jsvalue
  p_second_name :: jsvalue
  p_team :: int
  p_element_type :: int
  p_now_cost :: jsvalue
  p_total_points :: jsvalue
  p_minutes :: jsvalue
  p_goals_scored :: jsvalue
  p_assists :: jsvalue
  p_clean_sheets :: jsvalue
  p_goals_conceded :: jsvalue
  p_own_goals :: jsvalue
  p_penalties_saved :: jsvalue
  p_penalties_missed :: jsvalue
  p_yellow_cards :: jsvalue
  p_red_cards :: jsvalue
  p_saves :: jsvalue
  p_bonus :: jsvalue
  p_bps :: jsvalue
  p_influence :: jsvalue
  p_creativity :: jsvalue
  p_threat :: jsvalue
  p_ict_index :: jsvalue
  p_form :: jsvalue
  p_points_per_game :: jsvalue
  p_selected_by_percent :: jsvalue
  p_ep_next :: jsvalue
  p_ep_this :: jsvalue
  p_expected_goals :: jsvalue
  p_expected_assists :: jsvalue
  p_expected_goal_involvements :: jsvalue
  p_expected_goals_conceded :: jsvalue

record stats =
  now_cost :: jsvalue
  total_points :: jsvalue
  minutes :: jsvalue
  goals_scored :: jsvalue
  assists :: jsvalue
  clean_sheets :: jsvalue
  goals_conceded :: jsvalue
  own_goals :: jsvalue
  penalties_saved :: jsvalue
  penalties_missed :: jsvalue
  yellow_cards :: jsvalue
  red_cards :: jsvalue
  saves :: jsvalue
  bonus :: jsvalue
  bps :: jsvalue
  influence :: jsvalue
  creativity :: jsvalue
  threat :: jsvalue
  ict_index :: jsvalue
  form :: jsvalue
  points_per_game :: jsvalue
  selected_by_percent :: jsvalue
  ep_next :: jsvalue
  ep_this :: jsvalue
  expected_goals :: jsvalue
  expected_assists :: jsvalue
  expected_goal_involvements :: jsvalue
  expected_goals_conceded :: jsvalue

record playerView =
  pv_id :: int
  pv_web_name :: jsvalue
  pv_first_name :: jsvalue
  pv_second_name :: jsvalue
  pv_team_id :: int
  pv_team :: string
  pv_position :: string
  pv_stats :: stats

text \<open>
  A fixture: \<open>event\<close> is the gameweek, \<open>None\<close> when upstream sends \<open>null\<close> or no
  such field.
\<close>

record fixture =
  f_id :: int
  event :: "int option"
  team_h :: int
  team_a :: int
  team_h_difficulty :: int
  team_a_difficulty :: int
  kickoff_time :: jsvalue

record fixtureView =
  gw :: "int option"
  is_home :: bool
  opponent_team_id :: int
  opponent_name :: string
  difficulty :: int
  opponent_def_strength :: "int option"
  opponent_att_strength :: "int option"
  fv_kickoff_time :: jsvalue

text \<open>
  The bootstrap object. Each of its three arrays may be missing; the handlers read them
  as \<open>data.teams || []\<close>.
\<close>

record bootstrap =
  elements :: "rawPlayer list option"
  teams :: "team list option"
  element_types :: "elementType list option"

definition or_empty :: "'a list option \<Rightarrow> 'a list" where
  "or_empty xs = (case xs of None \<Rightarrow> [] | Some ys \<Rightarrow> ys)"

section \<open>Player projector\<close>

definition mapPlayer :: "rawPlayer \<Rightarrow> team list \<Rightarrow> elementType list \<Rightarrow> playerView" where
  "mapPlayer rawPlayer teams' elementsTypes =
    (let team' = find (\<lambda>t. t_id t = p_team rawPlayer) teams';
         type' = find (\<lambda>et. et_id et = p_element_type rawPlayer) elementsTypes
     in \<lparr> pv_id = p_id rawPlayer,
          pv_web_name = p_web_name rawPlayer,
          pv_first_name = p_first_name rawPlayer,
          pv_second_name = p_second_name rawPlayer,
          pv_team_id = p_team rawPlayer,
          pv_team = (case team' of Some t \<Rightarrow> t_name t | None \<Rightarrow> ''Unknown''),
          pv_position = (case type' of Some et \<Rightarrow> singular_name_short et | None \<Rightarrow> ''UNK''),
          pv_stats = \<lparr>
            now_cost = p_now_cost rawPlayer,
            total_points = p_total_points rawPlayer,
            minutes = p_minutes rawPlayer,
            goals_scored = p_goals_scored rawPlayer,
            assists = p_assists rawPlayer,
            clean_sheets = p_clean_sheets rawPlayer,
            goals_conceded = p_goals_conceded rawPlayer,
            own_goals = p_own_goals rawPlayer,
            penalties_saved = p_penalties_saved rawPlayer,
            penalties_missed = p_penalties_missed rawPlayer,
            yellow_cards = p_yellow_cards rawPlayer,
            red_cards = p_red_cards rawPlayer,
            saves = p_saves rawPlayer,
            bonus = p_bonus rawPlayer,
            bps = p_bps rawPlayer,
            influence = p_influence rawPlayer,
            creativity = p_creativity rawPlayer,
            threat = p_threat rawPlayer,
            ict_index = p_ict_index rawPlayer,
            form = p_form rawPlayer,
            points_per_game = p_points_per_game rawPlayer,
            selected_by_percent = p_selected_by_percent rawPlayer,
            ep_next = p_ep_next rawPlayer,
            ep_this = p_ep_this rawPlayer,
            expected_goals = p_expected_goals rawPlayer,
            expected_assists = p_expected_assists rawPlayer,
            expected_goal_involvements = p_expected_goal_involvements rawPlayer,
            expected_goals_conceded = p_expected_goals_conceded rawPlayer \<rparr> \<rparr>)"

section \<open>Upstream client\<close>

text \<open>
  What \<open>fetch(url)\<close> followed by \<open>res.json()\<close> yields when it is issued: the promise is
  rejected (transport error), or a response arrives with its status and its body, \<open>None\<close>
  when the body is not JSON. \<open>res.ok\<close> of node-fetch is true for the statuses 200 to 299.
\<close>

datatype 'a fetch_result = Rejected | Response int "'a option"

definition ok :: "int \<Rightarrow> bool" where
  "ok status = (200 \<le> status \<and> status < 300)"

datatype error =
    BootstrapApiError int
  | FixturesApiError int
  | TransportError
  | InvalidJson

definition bootstrap_url :: string where
  "bootstrap_url = ''https://fantasy.premierleague.com/api/bootstrap-static/''"

definition fixtures_url :: string where
  "fixtures_url = ''https://fantasy.premierleague.com/api/fixtures/?future=1''"

section \<open>Server state and the two caches\<close>

text \<open>
  The module-level variables, the store of fixture arrays and the log of upstream requests.
  The fixtures payload is an array that the fixtures handler hands to \<open>filter\<close>, \<open>sort\<close>
  and \<open>slice\<close>; \<open>sort\<close> works in place, so arrays of fixtures live in a store and
  \<open>cachedFixtures\<close> holds a reference. The bootstrap object is only ever read
  (\<open>find\<close>, \<open>forEach\<close>, \<open>map\<close>), so it is kept as a value.
\<close>

type_synonym ref = nat

record server =
  cachedBootstrap :: "bootstrap option"
  bootstrapTimestamp :: int
  cachedFixtures :: "ref option"
  fixturesTimestamp :: int
  arrays :: "ref \<Rightarrow> fixture list"
  next_ref :: ref
  fetched :: "string list"

definition initial :: server where
  "initial = \<lparr> cachedBootstrap = None, bootstrapTimestamp = 0,
               cachedFixtures = None, fixturesTimestamp = 0,
               arrays = (\<lambda>_. []), next_ref = 0, fetched = [] \<rparr>"

definition BOOTSTRAP_CACHE_MS :: int where
  "BOOTSTRAP_CACHE_MS = 60 * 1000"

definition FIXTURES_CACHE_MS :: int where
  "FIXTURES_CACHE_MS = 60 * 1000"

definition alloc :: "fixture list \<Rightarrow> server \<Rightarrow> ref \<times> server" where
  "alloc xs s =
    (next_ref s, s\<lparr> arrays := (arrays s)(next_ref s := xs), next_ref := Suc (next_ref s) \<rparr>)"

text \<open>\<open>now\<close> is the value of \<open>Date.now()\<close>, \<open>upstream\<close> what a fetch would yield.\<close>

definition getBootstrapStatic ::
  "int \<Rightarrow> bootstrap fetch_result \<Rightarrow> server \<Rightarrow> (error + bootstrap) \<times> server" where
  "getBootstrapStatic now upstream s =
    (if cachedBootstrap s \<noteq> None \<and> now - bootstrapTimestamp s < BOOTSTRAP_CACHE_MS
     then (Inr (the (cachedBootstrap s)), s)
     else
       (let s1 = s\<lparr> fetched := fetched s @ [bootstrap_url] \<rparr> in
        case upstream of
          Rejected \<Rightarrow> (Inl TransportError, s1)
        | Response status body \<Rightarrow>
            if \<not> ok status then (Inl (BootstrapApiError status), s1)
            else (case body of
                    None \<Rightarrow> (Inl InvalidJson, s1)
                  | Some data \<Rightarrow>
                      (Inr data, s1\<lparr> cachedBootstrap := Some data, bootstrapTimestamp := now \<rparr>))))"

text \<open>The fixtures payload is an array: the parsed body is a new array of the store.\<close>

definition getFixtures ::
  "int \<Rightarrow> fixture list fetch_result \<Rightarrow> server \<Rightarrow> (error + ref) \<times> server" where
  "getFixtures now upstream s =
    (if cachedFixtures s \<noteq> None \<and> now - fixturesTimestamp s < FIXTURES_CACHE_MS
     then (Inr (the (cachedFixtures s)), s)
     else
       (let s1 = s\<lparr> fetched := fetched s @ [fixtures_url] \<rparr> in
        case upstream of
          Rejected \<Rightarrow> (Inl TransportError, s1)
        | Response status body \<Rightarrow>
            if \<not> ok status then (Inl (FixturesApiError status), s1)
            else (case body of
                    None \<Rightarrow> (Inl InvalidJson, s1)
                  | Some xs \<Rightarrow>
                      (let (data, s2) = alloc xs s1 in
                       (Inr data, s2\<lparr> cachedFixtures := Some data, fixturesTimestamp := now \<rparr>)))))"

section \<open>Responses\<close>

record simpleTeam =
  st_id :: int
  st_name :: string

datatype body =
    ErrorBody string
  | PlayersBody "playerView list" "simpleTeam list"
  | PlayerBody playerView
  | TeamFixturesBody number string "fixtureView list"

text \<open>\<open>res.status(c).json(b)\<close>; \<open>res.json(b)\<close> alone answers with status 200.\<close>

datatype response = Json nat body

section \<open>Array operations\<close>

text \<open>
  \<open>filter\<close> and \<open>slice\<close> return a new array; \<open>sort\<close> reorders the array it is called
  on and returns the same reference. \<open>Array.prototype.sort\<close> is stable (ECMAScript 2019):
  with a comparator that orders by a key it is the insertion of each element before the
  first one it does not follow.
\<close>

definition array_filter :: "(fixture \<Rightarrow> bool) \<Rightarrow> ref \<Rightarrow> server \<Rightarrow> ref \<times> server" where
  "array_filter P a s = alloc (filter P (arrays s a)) s"

fun insert_by :: "('a \<Rightarrow> 'a \<Rightarrow> int) \<Rightarrow> 'a \<Rightarrow> 'a list \<Rightarrow> 'a list" where
  "insert_by cmp x [] = [x]"
| "insert_by cmp x (y # ys) =
     (if cmp x y \<le> 0 then x # y # ys else y # insert_by cmp x ys)"

definition sort_by :: "('a \<Rightarrow> 'a \<Rightarrow> int) \<Rightarrow> 'a list \<Rightarrow> 'a list" where
  "sort_by cmp xs = foldr (insert_by cmp) xs []"

definition array_sort :: "(fixture \<Rightarrow> fixture \<Rightarrow> int) \<Rightarrow> ref \<Rightarrow> server \<Rightarrow> ref \<times> server" where
  "array_sort cmp a s = (a, s\<lparr> arrays := (arrays s)(a := sort_by cmp (arrays s a)) \<rparr>)"

definition array_slice :: "nat \<Rightarrow> nat \<Rightarrow> ref \<Rightarrow> server \<Rightarrow> ref \<times> server" where
  "array_slice start end' a s = alloc (take (end' - start) (drop start (arrays s a))) s"

section \<open>Fixture selector\<close>

text \<open>\<open>a.event || 999\<close>: the default is taken for every falsy gameweek.\<close>

definition event_or_999 :: "fixture \<Rightarrow> int" where
  "event_or_999 f = (case event f of None \<Rightarrow> 999 | Some e \<Rightarrow> if e = 0 then 999 else e)"

definition compare_event :: "fixture \<Rightarrow> fixture \<Rightarrow> int" where
  "compare_event a b = (let evA = event_or_999 a; evB = event_or_999 b in evA - evB)"

definition plays :: "number \<Rightarrow> fixture \<Rightarrow> bool" where
  "plays teamId f = (strict_eq (team_h f) teamId \<or> strict_eq (team_a f) teamId)"

text \<open>The chain \<open>fixtures.filter(...).sort(...).slice(0, 5)\<close>.\<close>

definition select_fixtures :: "number \<Rightarrow> ref \<Rightarrow> server \<Rightarrow> ref \<times> server" where
  "select_fixtures teamId fixtures s =
    (let (filtered, s1) = array_filter (plays teamId) fixtures s;
         (sorted', s2) = array_sort compare_event filtered s1
     in array_slice 0 5 sorted' s2)"

text \<open>\<open>new Map()\<close> filled by \<open>teams.forEach((t) => teamMap.set(t.id, t))\<close>.\<close>

definition team_map :: "team list \<Rightarrow> (int \<rightharpoonup> team)" where
  "team_map teams' = fold (\<lambda>t m. m(t_id t \<mapsto> t)) teams' Map.empty"

text \<open>The function given to \<open>map\<close>.\<close>

definition fixture_view :: "number \<Rightarrow> (int \<rightharpoonup> team) \<Rightarrow> fixture \<Rightarrow> fixtureView" where
  "fixture_view teamId teamMap f =
    (let isHome = strict_eq (team_h f) teamId;
         opponentId = (if isHome then team_a f else team_h f);
         opponentTeam = teamMap opponentId;
         opponentName = (case opponentTeam of Some t \<Rightarrow> t_name t | None \<Rightarrow> ''Unknown'');
         gw' = event f;
         difficulty' = (if isHome then team_h_difficulty f else team_a_difficulty f);
         opponentDefStrength =
           (case opponentTeam of
              Some t \<Rightarrow> if isHome then Some (strength_defence_away t)
                        else Some (strength_defence_home t)
            | None \<Rightarrow> None);
         opponentAttStrength =
           (case opponentTeam of
              Some t \<Rightarrow> if isHome then Some (strength_attack_away t)
                        else Some (strength_attack_home t)
            | None \<Rightarrow> None)
     in \<lparr> gw = gw',
          is_home = isHome,
          opponent_team_id = opponentId,
          opponent_name = opponentName,
          difficulty = difficulty',
          opponent_def_strength = opponentDefStrength,
          opponent_att_strength = opponentAttStrength,
          fv_kickoff_time = kickoff_time f \<rparr>)"

definition team_fixtures ::
  "number \<Rightarrow> (int \<rightharpoonup> team) \<Rightarrow> ref \<Rightarrow> server \<Rightarrow> fixtureView list \<times> server" where
  "team_fixtures teamId teamMap fixtures s =
    (let (sliced, s') = select_fixtures teamId fixtures s
     in (map (fixture_view teamId teamMap) (arrays s' sliced), s'))"

section \<open>Request handlers\<close>

text \<open>
  Each handler takes the parsed path parameter (where it has one), the clock reading and
  what the upstream would answer, and returns the response with the new server state.
\<close>

definition players_handler ::
  "int \<Rightarrow> bootstrap fetch_result \<Rightarrow> server \<Rightarrow> response \<times> server" where
  "players_handler now upstream s =
    (case getBootstrapStatic now upstream s of
       (Inl err, s') \<Rightarrow> (Json 500 (ErrorBody ''Failed to fetch FPL data''), s')
     | (Inr data, s') \<Rightarrow>
         (let teams' = or_empty (teams data);
              elementTypes = or_empty (element_types data);
              players = map (\<lambda>p. mapPlayer p teams' elementTypes) (or_empty (elements data));
              simpleTeams = map (\<lambda>t. \<lparr> st_id = t_id t, st_name = t_name t \<rparr>) teams'
          in (Json 200 (PlayersBody players simpleTeams), s')))"

definition player_handler ::
  "number \<Rightarrow> int \<Rightarrow> bootstrap fetch_result \<Rightarrow> server \<Rightarrow> response \<times> server" where
  "player_handler id' now upstream s =
    (case getBootstrapStatic now upstream s of
       (Inl err, s') \<Rightarrow> (Json 500 (ErrorBody ''Failed to fetch player''), s')
     | (Inr data, s') \<Rightarrow>
         (let teams' = or_empty (teams data);
              elementTypes = or_empty (element_types data);
              playerRaw = find (\<lambda>p. strict_eq (p_id p) id') (or_empty (elements data))
          in case playerRaw of
               None \<Rightarrow> (Json 404 (ErrorBody ''Player not found''), s')
             | Some p \<Rightarrow> (Json 200 (PlayerBody (mapPlayer p teams' elementTypes)), s')))"

text \<open>
  \<open>Promise.all\<close> starts both calls; each runs to its end whatever the other does, and they
  touch different variables, so the two calls are run one after the other and the request
  fails when either failed.
\<close>

definition team_fixtures_handler ::
  "number \<Rightarrow> int \<Rightarrow> bootstrap fetch_result \<Rightarrow> fixture list fetch_result \<Rightarrow> server
     \<Rightarrow> response \<times> server" where
  "team_fixtures_handler teamId now upstream_b upstream_f s =
    (if \<not> truthy teamId then (Json 400 (ErrorBody ''Invalid team id''), s)
     else
       (let (rb, s1) = getBootstrapStatic now upstream_b s;
            (rf, s2) = getFixtures now upstream_f s1
        in case (rb, rf) of
             (Inr bootstrap', Inr fixtures) \<Rightarrow>
               (let teams' = or_empty (teams bootstrap') in
                case find (\<lambda>t. strict_eq (t_id t) teamId) teams' of
                  None \<Rightarrow> (Json 404 (ErrorBody ''Team not found''), s2)
                | Some team' \<Rightarrow>
                    (let teamMap = team_map teams';
                         (teamFixtures, s3) = team_fixtures teamId teamMap fixtures s2
                     in (Json 200 (TeamFixturesBody teamId (t_name team') teamFixtures), s3)))
           | _ \<Rightarrow> (Json 500 (ErrorBody ''Failed to fetch team fixtures''), s2)))"

section \<open>Notions used by the statements\<close>

text \<open>The array that the chain \<open>filter\<close>, \<open>sort\<close>, \<open>slice\<close> hands to \<open>map\<close>.\<close>

definition retained :: "number \<Rightarrow> ref \<Rightarrow> server \<Rightarrow> fixture list" where
  "retained teamId fixtures s =
    (let (sliced, s') = select_fixtures teamId fixtures s in arrays s' sliced)"

text \<open>
  The ordering as the specification words it: the gameweek number, and 999 for a fixture
  whose gameweek is unset.
\<close>

definition spec_gameweek_key :: "fixture \<Rightarrow> int" where
  "spec_gameweek_key f = (case event f of None \<Rightarrow> 999 | Some e \<Rightarrow> e)"

definition spec_select :: "number \<Rightarrow> fixture list \<Rightarrow> fixture list" where
  "spec_select teamId fixtures =
     take 5 (sort_key spec_gameweek_key (filter (plays teamId) fixtures))"

text \<open>A fetch fails: transport error, a status outside 200..299, or a body that is not JSON.\<close>

definition fetch_fails :: "'a fetch_result \<Rightarrow> bool" where
  "fetch_fails r =
    (case r of Rejected \<Rightarrow> True | Response status body \<Rightarrow> \<not> ok status \<or> body = None)"

text \<open>Every reference the server holds has been allocated.\<close>

definition allocated :: "server \<Rightarrow> bool" where
  "allocated s = (case cachedFixtures s of None \<Rightarrow> True | Some a \<Rightarrow> a < next_ref s)"

text \<open>The state after the two cache calls that the fixtures handler starts.\<close>

definition refreshed ::
  "int \<Rightarrow> bootstrap fetch_result \<Rightarrow> fixture list fetch_result \<Rightarrow> server \<Rightarrow> server" where
  "refreshed now ub uf s = snd (getFixtures now uf (snd (getBootstrapStatic now ub s)))"

subsection \<open>Sample data\<close>

definition sample_teams :: "team list" where
  "sample_teams =
    [\<lparr> t_id = 1, t_name = ''Arsenal'', strength_attack_home = 1300,
       strength_attack_away = 1250, strength_defence_home = 1350,
       strength_defence_away = 1280 \<rparr>,
     \<lparr> t_id = 2, t_name = ''Chelsea'', strength_attack_home = 1200,
       strength_attack_away = 1150, strength_defence_home = 1220,
       strength_defence_away = 1180 \<rparr>]"

definition sample_types :: "elementType list" where
  "sample_types = [\<lparr> et_id = 1, singular_name_short = ''GKP'' \<rparr>]"

definition sample_fixture :: "int \<Rightarrow> int option \<Rightarrow> int \<Rightarrow> int \<Rightarrow> fixture" where
  "sample_fixture i ev h a =
    \<lparr> f_id = i, event = ev, team_h = h, team_a = a, team_h_difficulty = 2,
      team_a_difficulty = 4, kickoff_time = JNull \<rparr>"

definition sample_player :: "int \<Rightarrow> int \<Rightarrow> int \<Rightarrow> rawPlayer" where
  "sample_player i t et =
    \<lparr> p_id = i, p_web_name = JString ''Raya'', p_first_name = JString ''David'',
      p_second_name = JString ''Raya'', p_team = t, p_element_type = et,
      p_now_cost = JNumber 55, p_total_points = JNumber 0, p_minutes = JNumber 0,
      p_goals_scored = JNumber 0, p_assists = JNumber 0, p_clean_sheets = JNumber 0,
      p_goals_conceded = JNumber 0, p_own_goals = JNumber 0, p_penalties_saved = JNumber 0,
      p_penalties_missed = JNumber 0, p_yellow_cards = JNumber 0, p_red_cards = JNumber 0,
      p_saves = JNumber 0, p_bonus = JNumber 0, p_bps = JNumber 0,
      p_influence = JString ''0.0'', p_creativity = JString ''0.0'',
      p_threat = JString ''0.0'', p_ict_index = JString ''0.0'', p_form = JString ''0.0'',
      p_points_per_game = JString ''0.0'', p_selected_by_percent = JString ''1.5'',
      p_ep_next = JNull, p_ep_this = JUndefined, p_expected_goals = JString ''0.00'',
      p_expected_assists = JString ''0.00'',
      p_expected_goal_involvements = JString ''0.00'',
      p_expected_goals_conceded = JString ''0.00'' \<rparr>"

definition sample_bootstrap :: bootstrap where
  "sample_bootstrap =
    \<lparr> elements = Some [sample_player 10 1 1, sample_player 11 2 1, sample_player 12 3 4],
      teams = Some sample_teams, element_types = Some sample_types \<rparr>"

text \<open>A server whose fixtures cache holds the given array, refreshed at time 1000.\<close>

definition serving :: "fixture list \<Rightarrow> server" where
  "serving xs =
    \<lparr> cachedBootstrap = Some sample_bootstrap, bootstrapTimestamp = 1000,
      cachedFixtures = Some 0, fixturesTimestamp = 1000,
      arrays = (\<lambda>_. [])(0 := xs), next_ref = 1, fetched = [] \<rparr>"

definition venue_fixtures :: "fixture list" where
  "venue_fixtures = [sample_fixture 1 (Some 3) 1 2, sample_fixture 2 None 2 1]"

definition sentinel_fixtures :: "fixture list" where
  "sentinel_fixtures =
    [sample_fixture 1 None 1 2, sample_fixture 2 (Some 1000) 1 2, sample_fixture 3 (Some 0) 2 1]"

definition mixed_fixtures :: "fixture list" where
  "mixed_fixtures =
    [sample_fixture 1 (Some 3) 1 2, sample_fixture 2 (Some 1) 2 1, sample_fixture 3 None 1 2,
     sample_fixture 4 (Some 2) 1 2, sample_fixture 5 (Some 5) 2 1, sample_fixture 6 (Some 4) 1 2,
     sample_fixture 7 (Some 6) 1 2, sample_fixture 8 (Some 1) 2 3, sample_fixture 9 (Some 1) 1 3]"

section \<open>The sort and the chain\<close>

lemma insert_by_compare_event:
  "insert_by compare_event x ys = insort_key event_or_999 x ys"
  by (induction ys) (simp_all add: compare_event_def)

lemma sort_by_compare_event: "sort_by compare_event xs = sort_key event_or_999 xs"
  by (induction xs) (simp_all add: sort_by_def sort_key_def insert_by_compare_event)

lemma select_fixtures_eq:
  "select_fixtures teamId a s =
    (Suc (next_ref s),
     s\<lparr> arrays := ((arrays s)
          (next_ref s := sort_key event_or_999 (filter (plays teamId) (arrays s a))))
          (Suc (next_ref s) :=
             take 5 (sort_key event_or_999 (filter (plays teamId) (arrays s a)))),
        next_ref := Suc (Suc (next_ref s)) \<rparr>)"
  by (simp add: select_fixtures_def array_filter_def array_sort_def array_slice_def
      alloc_def sort_by_compare_event)

lemma retained_eq:
  "retained teamId a s = take 5 (sort_key event_or_999 (filter (plays teamId) (arrays s a)))"
  by (simp add: retained_def select_fixtures_eq)

lemma team_fixtures_eq:
  "fst (team_fixtures teamId teamMap a s) =
     map (fixture_view teamId teamMap) (retained teamId a s)"
  by (simp add: team_fixtures_def retained_def split_def Let_def)

lemma event_or_999_spec: "event f \<noteq> Some 0 \<Longrightarrow> event_or_999 f = spec_gameweek_key f"
  by (simp add: event_or_999_def spec_gameweek_key_def split: option.splits)

lemma insort_key_agree:
  "\<forall>y \<in> set (x # ys). f y = g y \<Longrightarrow> insort_key f x ys = insort_key g x ys"
  by (induction ys) simp_all

lemma sort_key_agree:
  "\<forall>y \<in> set xs. f y = g y \<Longrightarrow> sort_key f xs = sort_key g xs"
proof (induction xs)
  case Nil
  then show ?case by simp
next
  case (Cons x xs)
  then have "sort_key f xs = sort_key g xs" by simp
  moreover have "\<forall>y \<in> set (x # sort_key g xs). f y = g y" using Cons.prems by simp
  ultimately show ?case by (simp add: insort_key_agree)
qed

lemma sorted_take_nth:
  assumes "sorted (map k xs)" and "i < j" and "j < length (take n xs)"
  shows "k (take n xs ! i) \<le> k (take n xs ! j)"
proof -
  have "sorted (map k (take n xs))"
    using assms(1) by (simp add: take_map [symmetric])
  then show ?thesis using assms(2,3)
    by (metis (no_types, lifting) length_map less_imp_le_nat nth_map order_less_trans
        sorted_nth_mono)
qed

lemma retained_sample:
  "retained (Finite 1) 0 (serving xs) = take 5 (sort_key event_or_999 (filter (plays (Finite 1)) xs))"
  by (simp add: retained_eq serving_def)

section \<open>Properties of the fixture selector\<close>

text \<open>
  C2 (as amended). For every fixture list in which no gameweek is 0 and every team id, the
  retained fixtures are the fixtures of the list where the team is home or away, sorted
  ascending by gameweek with an unset gameweek counted as 999, cut to the first 5; the
  sort is stable (fixtures of equal gameweek keep their relative order), and after a
  retained fixture with no gameweek comes no fixture with a gameweek below 999.
\<close>

theorem selector_order:
  assumes "\<forall>f \<in> set (arrays s fixtures). event f \<noteq> Some 0"
  shows "retained teamId fixtures s
           = take 5 (sort_key spec_gameweek_key (filter (plays teamId) (arrays s fixtures)))
    \<and> sorted (map spec_gameweek_key (retained teamId fixtures s))
    \<and> (\<forall>k. filter (\<lambda>f. spec_gameweek_key f = k)
               (sort_key spec_gameweek_key (filter (plays teamId) (arrays s fixtures)))
           = filter (\<lambda>f. spec_gameweek_key f = k) (filter (plays teamId) (arrays s fixtures)))
    \<and> (\<forall>i j e. i < j \<and> j < length (retained teamId fixtures s)
          \<and> event (retained teamId fixtures s ! i) = None
          \<and> event (retained teamId fixtures s ! j) = Some e \<longrightarrow> 999 \<le> e)"
proof -
  let ?kept = "filter (plays teamId) (arrays s fixtures)"
  let ?sorted = "sort_key spec_gameweek_key ?kept"
  have agree: "\<forall>f \<in> set ?kept. event_or_999 f = spec_gameweek_key f"
    using assms by (simp add: event_or_999_spec)
  have eq: "retained teamId fixtures s = take 5 ?sorted"
    by (simp add: retained_eq sort_key_agree [OF agree])
  have srt: "sorted (map spec_gameweek_key ?sorted)" by simp
  have srt5: "sorted (map spec_gameweek_key (take 5 ?sorted))"
    using srt by (simp add: take_map [symmetric])
  have stable: "\<forall>k. filter (\<lambda>f. spec_gameweek_key f = k) ?sorted
                   = filter (\<lambda>f. spec_gameweek_key f = k) ?kept"
    by (simp add: sort_key_stable)
  have after: "\<forall>i j e. i < j \<and> j < length (take 5 ?sorted)
          \<and> event (take 5 ?sorted ! i) = None
          \<and> event (take 5 ?sorted ! j) = Some e \<longrightarrow> 999 \<le> e"
  proof (intro allI impI)
    fix i j e
    assume h: "i < j \<and> j < length (take 5 ?sorted)
          \<and> event (take 5 ?sorted ! i) = None
          \<and> event (take 5 ?sorted ! j) = Some e"
    then have "spec_gameweek_key (take 5 ?sorted ! i) \<le> spec_gameweek_key (take 5 ?sorted ! j)"
      using sorted_take_nth [OF srt] by blast
    moreover have "spec_gameweek_key (take 5 ?sorted ! i) = 999"
      using h by (simp only: spec_gameweek_key_def option.case)
    moreover have "spec_gameweek_key (take 5 ?sorted ! j) = e"
      using h by (simp only: spec_gameweek_key_def option.case)
    ultimately show "999 \<le> e" by (simp only:)
  qed
  show ?thesis using eq srt5 stable after by simp
qed

theorem selector_order_witness:
  "Some 0 \<notin> set (map event (arrays (serving mixed_fixtures) 0))
   \<and> map f_id (retained (Finite 1) 0 (serving mixed_fixtures)) = [2, 9, 4, 1, 6]"
proof -
  have h: "\<forall>f \<in> set (arrays (serving mixed_fixtures) 0). event f \<noteq> Some 0"
    by (simp add: serving_def mixed_fixtures_def sample_fixture_def)
  have "retained (Finite 1) 0 (serving mixed_fixtures)
          = take 5 (sort_key spec_gameweek_key
              (filter (plays (Finite 1)) (arrays (serving mixed_fixtures) 0)))"
    using selector_order [OF h] by blast
  then have "map f_id (retained (Finite 1) 0 (serving mixed_fixtures)) = [2, 9, 4, 1, 6]"
    by (simp add: serving_def mixed_fixtures_def sample_fixture_def plays_def strict_eq_def
        spec_gameweek_key_def)
  moreover have "Some 0 \<notin> set (map event (arrays (serving mixed_fixtures) 0))"
    by (simp add: serving_def mixed_fixtures_def sample_fixture_def)
  ultimately show ?thesis by simp
qed

text \<open>
  C2 as stated fails on the list (unset, gameweek 1000, gameweek 0): the code orders the
  gameweek 0 as 999, so it does not sort by gameweek number, and the unset fixture comes
  out before both assigned ones.
\<close>

theorem selector_order_counterexample:
  "retained (Finite 1) 0 (serving sentinel_fixtures) \<noteq> spec_select (Finite 1) sentinel_fixtures
   \<and> map event (retained (Finite 1) 0 (serving sentinel_fixtures)) = [None, Some 0, Some 1000]"
  by (simp add: retained_sample spec_select_def sentinel_fixtures_def sample_fixture_def
      plays_def strict_eq_def spec_gameweek_key_def event_or_999_def)


text \<open>
  C1. For a retained fixture whose opponent is in the team table, the strengths reported
  are the opponent's away strengths when the queried team is at home, and the opponent's
  home strengths when the queried team is away.
\<close>

theorem venue_inversion:
  assumes "i < length (retained teamId a s)"
    and "teamMap (opponent_team_id (fst (team_fixtures teamId teamMap a s) ! i)) = Some t"
  shows "is_home (fst (team_fixtures teamId teamMap a s) ! i)
           = strict_eq (team_h (retained teamId a s ! i)) teamId
    \<and> opponent_team_id (fst (team_fixtures teamId teamMap a s) ! i)
           = (if strict_eq (team_h (retained teamId a s ! i)) teamId
              then team_a (retained teamId a s ! i) else team_h (retained teamId a s ! i))
    \<and> (is_home (fst (team_fixtures teamId teamMap a s) ! i) \<longrightarrow>
         opponent_def_strength (fst (team_fixtures teamId teamMap a s) ! i)
           = Some (strength_defence_away t)
       \<and> opponent_att_strength (fst (team_fixtures teamId teamMap a s) ! i)
           = Some (strength_attack_away t))
    \<and> (\<not> is_home (fst (team_fixtures teamId teamMap a s) ! i) \<longrightarrow>
         opponent_def_strength (fst (team_fixtures teamId teamMap a s) ! i)
           = Some (strength_defence_home t)
       \<and> opponent_att_strength (fst (team_fixtures teamId teamMap a s) ! i)
           = Some (strength_attack_home t))"
proof -
  let ?f = "retained teamId a s ! i"
  have v: "fst (team_fixtures teamId teamMap a s) ! i = fixture_view teamId teamMap ?f"
    using assms(1) by (simp add: team_fixtures_eq)
  have opp: "teamMap (if strict_eq (team_h ?f) teamId then team_a ?f else team_h ?f) = Some t"
    using assms(2) unfolding v by (simp add: fixture_view_def Let_def)
  show ?thesis
  proof (cases "strict_eq (team_h ?f) teamId")
    case True
    with opp show ?thesis unfolding v by (simp add: fixture_view_def Let_def)
  next
    case False
    with opp show ?thesis unfolding v by (simp add: fixture_view_def Let_def)
  qed
qed

theorem venue_inversion_witness:
  "opponent_def_strength
      (fst (team_fixtures (Finite 1) (team_map sample_teams) 0 (serving venue_fixtures)) ! 0)
     = Some 1180
   \<and> opponent_att_strength
      (fst (team_fixtures (Finite 1) (team_map sample_teams) 0 (serving venue_fixtures)) ! 0)
     = Some 1150
   \<and> opponent_def_strength
      (fst (team_fixtures (Finite 1) (team_map sample_teams) 0 (serving venue_fixtures)) ! 1)
     = Some 1220
   \<and> opponent_att_strength
      (fst (team_fixtures (Finite 1) (team_map sample_teams) 0 (serving venue_fixtures)) ! 1)
     = Some 1200"
proof -
  let ?views = "fst (team_fixtures (Finite 1) (team_map sample_teams) 0 (serving venue_fixtures))"
  let ?chelsea = "sample_teams ! 1"
  have r: "retained (Finite 1) 0 (serving venue_fixtures) = venue_fixtures"
    by (simp add: retained_sample venue_fixtures_def sample_fixture_def plays_def
        strict_eq_def event_or_999_def)
  have len: "0 < length (retained (Finite 1) 0 (serving venue_fixtures))"
       "1 < length (retained (Finite 1) 0 (serving venue_fixtures))"
    unfolding r by (simp_all add: venue_fixtures_def)
  have views: "?views = map (fixture_view (Finite 1) (team_map sample_teams)) venue_fixtures"
    by (simp add: team_fixtures_eq r)
  have opp: "team_map sample_teams (opponent_team_id (?views ! 0)) = Some ?chelsea"
       "team_map sample_teams (opponent_team_id (?views ! 1)) = Some ?chelsea"
    unfolding views
    by (simp_all add: venue_fixtures_def sample_fixture_def fixture_view_def
        strict_eq_def team_map_def sample_teams_def)
  have home: "is_home (?views ! 0)" "\<not> is_home (?views ! 1)"
    unfolding views
    by (simp_all add: venue_fixtures_def sample_fixture_def fixture_view_def strict_eq_def
        Let_def)
  have s: "strength_defence_away ?chelsea = 1180" "strength_attack_away ?chelsea = 1150"
       "strength_defence_home ?chelsea = 1220" "strength_attack_home ?chelsea = 1200"
    by (simp_all add: sample_teams_def)
  show ?thesis
    using venue_inversion [where i = 0 and teamId = "Finite 1" and a = 0
        and s = "serving venue_fixtures" and teamMap = "team_map sample_teams"
        and t = "?chelsea", OF len(1) opp(1)]
      venue_inversion [where i = 1 and teamId = "Finite 1" and a = 0
        and s = "serving venue_fixtures" and teamMap = "team_map sample_teams"
        and t = "?chelsea", OF len(2) opp(2)] home
    by (simp only: s simp_thms)
qed

text \<open>
  C10. The \<open>gw\<close> of each output record is the raw gameweek of the retained fixture it
  comes from; for a fixture with no gameweek it is absent, never the 999 of the ordering.
\<close>

theorem gameweek_passthrough:
  "map gw (fst (team_fixtures teamId teamMap a s)) = map event (retained teamId a s)
   \<and> (\<forall>i < length (retained teamId a s).
        event (retained teamId a s ! i) = None \<longrightarrow>
        gw (fst (team_fixtures teamId teamMap a s) ! i) = None)"
  by (simp add: team_fixtures_eq fixture_view_def Let_def)

theorem gameweek_passthrough_witness:
  "map gw (fst (team_fixtures (Finite 1) (team_map sample_teams) 0 (serving venue_fixtures)))
     = [Some 3, None]
   \<and> gw (fst (team_fixtures (Finite 1) (team_map sample_teams) 0 (serving venue_fixtures)) ! 1)
     = None"
proof -
  have r: "retained (Finite 1) 0 (serving venue_fixtures) = venue_fixtures"
    by (simp add: retained_sample venue_fixtures_def sample_fixture_def plays_def
        strict_eq_def event_or_999_def)
  have len: "1 < length (retained (Finite 1) 0 (serving venue_fixtures))"
    unfolding r by (simp add: venue_fixtures_def)
  have ev: "event (retained (Finite 1) 0 (serving venue_fixtures) ! 1) = None"
    unfolding r by (simp add: venue_fixtures_def sample_fixture_def)
  have evs: "map event (retained (Finite 1) 0 (serving venue_fixtures)) = [Some 3, None]"
    unfolding r by (simp add: venue_fixtures_def sample_fixture_def)
  from gameweek_passthrough [of "Finite 1" "team_map sample_teams" 0 "serving venue_fixtures"]
  show ?thesis using len ev evs by simp
qed

section \<open>Properties of the player projector\<close>

text \<open>
  C6. The projector is a total function with no failing branch. When no team of the table
  has the player's team id, the team name is "Unknown"; when no position type has the
  player's type id, the position is "UNK"; a team or type that is found gives its name.
\<close>

theorem projector_defaults:
  "((\<forall>t \<in> set teams'. t_id t \<noteq> p_team p) \<longrightarrow>
      pv_team (mapPlayer p teams' types) = ''Unknown'')
   \<and> ((\<forall>et \<in> set types. et_id et \<noteq> p_element_type p) \<longrightarrow>
      pv_position (mapPlayer p teams' types) = ''UNK'')
   \<and> (\<forall>t. find (\<lambda>t. t_id t = p_team p) teams' = Some t \<longrightarrow>
      pv_team (mapPlayer p teams' types) = t_name t)
   \<and> (\<forall>et. find (\<lambda>et. et_id et = p_element_type p) types = Some et \<longrightarrow>
      pv_position (mapPlayer p teams' types) = singular_name_short et)"
proof (intro conjI impI allI)
  assume "\<forall>t \<in> set teams'. t_id t \<noteq> p_team p"
  then have "find (\<lambda>t. t_id t = p_team p) teams' = None" by (simp add: find_None_iff)
  then show "pv_team (mapPlayer p teams' types) = ''Unknown''"
    by (simp add: mapPlayer_def)
next
  assume "\<forall>et \<in> set types. et_id et \<noteq> p_element_type p"
  then have "find (\<lambda>et. et_id et = p_element_type p) types = None"
    by (simp add: find_None_iff)
  then show "pv_position (mapPlayer p teams' types) = ''UNK''"
    by (simp add: mapPlayer_def)
next
  fix t assume "find (\<lambda>t. t_id t = p_team p) teams' = Some t"
  then show "pv_team (mapPlayer p teams' types) = t_name t" by (simp add: mapPlayer_def)
next
  fix et assume "find (\<lambda>et. et_id et = p_element_type p) types = Some et"
  then show "pv_position (mapPlayer p teams' types) = singular_name_short et"
    by (simp add: mapPlayer_def)
qed

theorem projector_defaults_witness:
  "pv_team (mapPlayer (sample_player 12 3 4) sample_teams sample_types) = ''Unknown''
   \<and> pv_position (mapPlayer (sample_player 12 3 4) sample_teams sample_types) = ''UNK''
   \<and> pv_team (mapPlayer (sample_player 11 2 1) sample_teams sample_types) = ''Chelsea''
   \<and> pv_position (mapPlayer (sample_player 11 2 1) sample_teams sample_types) = ''GKP''"
proof -
  have a: "\<forall>t \<in> set sample_teams. t_id t \<noteq> p_team (sample_player 12 3 4)"
    by (simp add: sample_teams_def sample_player_def)
  have b: "\<forall>et \<in> set sample_types. et_id et \<noteq> p_element_type (sample_player 12 3 4)"
    by (simp add: sample_types_def sample_player_def)
  have c: "find (\<lambda>t. t_id t = p_team (sample_player 11 2 1)) sample_teams
             = Some (sample_teams ! 1)"
    by (simp add: sample_teams_def sample_player_def)
  have d: "find (\<lambda>et. et_id et = p_element_type (sample_player 11 2 1)) sample_types
             = Some (sample_types ! 0)"
    by (simp add: sample_types_def sample_player_def)
  have n: "t_name (sample_teams ! 1) = ''Chelsea''"
       "singular_name_short (sample_types ! 0) = ''GKP''"
    by (simp_all add: sample_teams_def sample_types_def)
  show ?thesis
    using projector_defaults [of sample_teams "sample_player 12 3 4" sample_types] a b
      projector_defaults [of sample_teams "sample_player 11 2 1" sample_types] c d n
    by metis
qed


section \<open>Properties of the staleness cache\<close>

lemma getBootstrapStatic_hit:
  "cachedBootstrap s = Some d \<Longrightarrow> now - bootstrapTimestamp s < BOOTSTRAP_CACHE_MS \<Longrightarrow>
   getBootstrapStatic now ub s = (Inr d, s)"
  by (simp add: getBootstrapStatic_def)

lemma getFixtures_hit:
  "cachedFixtures s = Some a \<Longrightarrow> now - fixturesTimestamp s < FIXTURES_CACHE_MS \<Longrightarrow>
   getFixtures now uf s = (Inr a, s)"
  by (simp add: getFixtures_def)

lemma getBootstrapStatic_fetched:
  "length (fetched (snd (getBootstrapStatic now ub s))) \<le> length (fetched s) + 1"
  by (simp add: getBootstrapStatic_def Let_def split: fetch_result.splits option.splits)

lemma getFixtures_fetched:
  "length (fetched (snd (getFixtures now uf s))) \<le> length (fetched s) + 1"
  by (simp add: getFixtures_def alloc_def Let_def split: fetch_result.splits option.splits)

lemma getBootstrapStatic_success:
  assumes "getBootstrapStatic now ub s = (Inr d, s1)"
  shows "s1 = s \<or> (length (fetched s1) = length (fetched s) + 1
           \<and> cachedBootstrap s1 = Some d \<and> bootstrapTimestamp s1 = now)"
  using assms
  by (auto simp: getBootstrapStatic_def Let_def split: if_splits fetch_result.splits option.splits)

lemma getFixtures_success:
  assumes "getFixtures now uf s = (Inr a, s1)"
  shows "s1 = s \<or> (length (fetched s1) = length (fetched s) + 1
           \<and> cachedFixtures s1 = Some a \<and> fixturesTimestamp s1 = now)"
  using assms
  by (auto simp: getFixtures_def alloc_def Let_def
      split: if_splits fetch_result.splits option.splits)

text \<open>
  C3. For both cached resources: when an entry exists and the time since its refresh is
  below the 60 seconds, the call returns the cached payload and leaves the state, with its
  log of upstream requests, as it was. Hence when a call has returned a payload, that call
  and a second one less than 60 seconds after it issue at most one upstream request together.
\<close>

theorem cache_hit_no_fetch:
  "(cachedBootstrap s = Some d \<and> now - bootstrapTimestamp s < 60 * 1000 \<longrightarrow>
      getBootstrapStatic now ub s = (Inr d, s))
   \<and> (cachedFixtures s = Some a \<and> now - fixturesTimestamp s < 60 * 1000 \<longrightarrow>
      getFixtures now uf s = (Inr a, s))
   \<and> (getBootstrapStatic now_fst ub_fst s = (Inr d_fst, sb) \<and> now_snd - now_fst < 60 * 1000 \<longrightarrow>
      length (fetched (snd (getBootstrapStatic now_snd ub_snd sb))) \<le> length (fetched s) + 1)
   \<and> (getFixtures now_fst uf_fst s = (Inr a_fst, sf) \<and> now_snd - now_fst < 60 * 1000 \<longrightarrow>
      length (fetched (snd (getFixtures now_snd uf_snd sf))) \<le> length (fetched s) + 1)"
proof (intro conjI impI)
  assume "cachedBootstrap s = Some d \<and> now - bootstrapTimestamp s < 60 * 1000"
  then show "getBootstrapStatic now ub s = (Inr d, s)"
    by (simp add: getBootstrapStatic_hit BOOTSTRAP_CACHE_MS_def)
next
  assume "cachedFixtures s = Some a \<and> now - fixturesTimestamp s < 60 * 1000"
  then show "getFixtures now uf s = (Inr a, s)"
    by (simp add: getFixtures_hit FIXTURES_CACHE_MS_def)
next
  assume h: "getBootstrapStatic now_fst ub_fst s = (Inr d_fst, sb) \<and> now_snd - now_fst < 60 * 1000"
  from getBootstrapStatic_success [of now_fst ub_fst s d_fst sb] h
  consider "sb = s"
    | "length (fetched sb) = length (fetched s) + 1" "cachedBootstrap sb = Some d_fst"
      "bootstrapTimestamp sb = now_fst"
    by blast
  then show "length (fetched (snd (getBootstrapStatic now_snd ub_snd sb))) \<le> length (fetched s) + 1"
  proof cases
    case 1
    then show ?thesis using getBootstrapStatic_fetched [of now_snd ub_snd s] by simp
  next
    case 2
    with h have "getBootstrapStatic now_snd ub_snd sb = (Inr d_fst, sb)"
      by (simp add: getBootstrapStatic_hit BOOTSTRAP_CACHE_MS_def)
    with 2 show ?thesis by simp
  qed
next
  assume h: "getFixtures now_fst uf_fst s = (Inr a_fst, sf) \<and> now_snd - now_fst < 60 * 1000"
  from getFixtures_success [of now_fst uf_fst s a_fst sf] h
  consider "sf = s"
    | "length (fetched sf) = length (fetched s) + 1" "cachedFixtures sf = Some a_fst"
      "fixturesTimestamp sf = now_fst"
    by blast
  then show "length (fetched (snd (getFixtures now_snd uf_snd sf))) \<le> length (fetched s) + 1"
  proof cases
    case 1
    then show ?thesis using getFixtures_fetched [of now_snd uf_snd s] by simp
  next
    case 2
    with h have "getFixtures now_snd uf_snd sf = (Inr a_fst, sf)"
      by (simp add: getFixtures_hit FIXTURES_CACHE_MS_def)
    with 2 show ?thesis by simp
  qed
qed

theorem cache_hit_no_fetch_witness:
  "getBootstrapStatic 60999 Rejected (serving []) = (Inr sample_bootstrap, serving [])
   \<and> getFixtures 60999 Rejected (serving []) = (Inr 0, serving [])
   \<and> length (fetched (snd (getBootstrapStatic 64999 Rejected
        (snd (getBootstrapStatic 5000 (Response 200 (Some sample_bootstrap)) initial))))) \<le> 1
   \<and> length (fetched (snd (getFixtures 64999 Rejected
        (snd (getFixtures 5000 (Response 200 (Some venue_fixtures)) initial))))) \<le> 1"
proof -
  have b: "cachedBootstrap (serving []) = Some sample_bootstrap
           \<and> 60999 - bootstrapTimestamp (serving []) < 60 * 1000"
    by (simp add: serving_def)
  have f: "cachedFixtures (serving []) = Some 0
           \<and> 60999 - fixturesTimestamp (serving []) < 60 * 1000"
    by (simp add: serving_def)
  have b2: "getBootstrapStatic 5000 (Response 200 (Some sample_bootstrap)) initial
      = (Inr sample_bootstrap,
         snd (getBootstrapStatic 5000 (Response 200 (Some sample_bootstrap)) initial))
      \<and> (64999::int) - 5000 < 60 * 1000"
    by (simp add: getBootstrapStatic_def initial_def ok_def)
  have f2: "getFixtures 5000 (Response 200 (Some venue_fixtures)) initial
      = (Inr 0, snd (getFixtures 5000 (Response 200 (Some venue_fixtures)) initial))
      \<and> (64999::int) - 5000 < 60 * 1000"
    by (simp add: getFixtures_def alloc_def initial_def ok_def)
  have e: "length (fetched initial) + 1 = 1" by (simp add: initial_def)
  note hit = cache_hit_no_fetch [where s = "serving []" and d = sample_bootstrap and a = 0
      and now = 60999 and ub = Rejected and uf = Rejected]
  note two = cache_hit_no_fetch [where s = initial and now_fst = 5000 and now_snd = 64999
      and ub_fst = "Response 200 (Some sample_bootstrap)" and d_fst = sample_bootstrap
      and sb = "snd (getBootstrapStatic 5000 (Response 200 (Some sample_bootstrap)) initial)"
      and ub_snd = Rejected
      and uf_fst = "Response 200 (Some venue_fixtures)" and a_fst = 0
      and sf = "snd (getFixtures 5000 (Response 200 (Some venue_fixtures)) initial)"
      and uf_snd = Rejected]
  have "getBootstrapStatic 60999 Rejected (serving []) = (Inr sample_bootstrap, serving [])"
    using hit b by blast
  moreover have "getFixtures 60999 Rejected (serving []) = (Inr 0, serving [])"
    using hit f by blast
  moreover have "length (fetched (snd (getBootstrapStatic 64999 Rejected
        (snd (getBootstrapStatic 5000 (Response 200 (Some sample_bootstrap)) initial)))))
      \<le> length (fetched initial) + 1"
    using two b2 by blast
  moreover have "length (fetched (snd (getFixtures 64999 Rejected
        (snd (getFixtures 5000 (Response 200 (Some venue_fixtures)) initial)))))
      \<le> length (fetched initial) + 1"
    using two f2 by blast
  ultimately show ?thesis unfolding e by blast
qed

text \<open>
  C4. For both cached resources: when the entry is missing or stale and the fetch fails,
  the call returns the failure, and the state differs from the one before only in the log
  of upstream requests: payload, timestamp and stored arrays are as they were.
\<close>

theorem failed_refresh_keeps_entry:
  "(fetch_fails ub \<and> \<not> (cachedBootstrap s \<noteq> None \<and> now - bootstrapTimestamp s < 60 * 1000) \<longrightarrow>
      (\<exists>e. getBootstrapStatic now ub s = (Inl e, s\<lparr> fetched := fetched s @ [bootstrap_url] \<rparr>)))
   \<and> (fetch_fails uf \<and> \<not> (cachedFixtures s \<noteq> None \<and> now - fixturesTimestamp s < 60 * 1000) \<longrightarrow>
      (\<exists>e. getFixtures now uf s = (Inl e, s\<lparr> fetched := fetched s @ [fixtures_url] \<rparr>)))
   \<and> (fetch_fails ub \<longrightarrow>
        cachedBootstrap (snd (getBootstrapStatic now ub s)) = cachedBootstrap s
      \<and> bootstrapTimestamp (snd (getBootstrapStatic now ub s)) = bootstrapTimestamp s)
   \<and> (fetch_fails uf \<longrightarrow>
        cachedFixtures (snd (getFixtures now uf s)) = cachedFixtures s
      \<and> fixturesTimestamp (snd (getFixtures now uf s)) = fixturesTimestamp s
      \<and> arrays (snd (getFixtures now uf s)) = arrays s)"
proof (intro conjI impI)
  assume "fetch_fails ub \<and> \<not> (cachedBootstrap s \<noteq> None \<and> now - bootstrapTimestamp s < 60 * 1000)"
  then show "\<exists>e. getBootstrapStatic now ub s
                 = (Inl e, s\<lparr> fetched := fetched s @ [bootstrap_url] \<rparr>)"
    by (auto simp: getBootstrapStatic_def fetch_fails_def BOOTSTRAP_CACHE_MS_def Let_def
        split: fetch_result.splits)
next
  assume "fetch_fails uf \<and> \<not> (cachedFixtures s \<noteq> None \<and> now - fixturesTimestamp s < 60 * 1000)"
  then show "\<exists>e. getFixtures now uf s = (Inl e, s\<lparr> fetched := fetched s @ [fixtures_url] \<rparr>)"
    by (auto simp: getFixtures_def fetch_fails_def FIXTURES_CACHE_MS_def Let_def
        split: fetch_result.splits)
next
  assume "fetch_fails ub"
  then show "cachedBootstrap (snd (getBootstrapStatic now ub s)) = cachedBootstrap s"
    by (auto simp: getBootstrapStatic_def fetch_fails_def Let_def split: fetch_result.splits)
next
  assume "fetch_fails ub"
  then show "bootstrapTimestamp (snd (getBootstrapStatic now ub s)) = bootstrapTimestamp s"
    by (auto simp: getBootstrapStatic_def fetch_fails_def Let_def split: fetch_result.splits)
next
  assume "fetch_fails uf"
  then show "cachedFixtures (snd (getFixtures now uf s)) = cachedFixtures s"
    by (auto simp: getFixtures_def fetch_fails_def Let_def split: fetch_result.splits)
next
  assume "fetch_fails uf"
  then show "fixturesTimestamp (snd (getFixtures now uf s)) = fixturesTimestamp s"
    by (auto simp: getFixtures_def fetch_fails_def Let_def split: fetch_result.splits)
next
  assume "fetch_fails uf"
  then show "arrays (snd (getFixtures now uf s)) = arrays s"
    by (auto simp: getFixtures_def fetch_fails_def Let_def split: fetch_result.splits)
qed

theorem failed_refresh_keeps_entry_witness:
  "fst (getBootstrapStatic 61000 (Response 503 None) (serving [])) = Inl (BootstrapApiError 503)
   \<and> cachedBootstrap (snd (getBootstrapStatic 61000 (Response 503 None) (serving [])))
       = Some sample_bootstrap
   \<and> bootstrapTimestamp (snd (getBootstrapStatic 61000 (Response 503 None) (serving []))) = 1000
   \<and> fst (getFixtures 61000 Rejected (serving venue_fixtures)) = Inl TransportError
   \<and> cachedFixtures (snd (getFixtures 61000 Rejected (serving venue_fixtures))) = Some 0
   \<and> fixturesTimestamp (snd (getFixtures 61000 Rejected (serving venue_fixtures))) = 1000
   \<and> arrays (snd (getFixtures 61000 Rejected (serving venue_fixtures))) 0 = venue_fixtures"
proof -
  have b: "fetch_fails (Response 503 None :: bootstrap fetch_result)
     \<and> \<not> (cachedBootstrap (serving []) \<noteq> None
          \<and> 61000 - bootstrapTimestamp (serving []) < 60 * 1000)"
    by (simp add: fetch_fails_def ok_def serving_def)
  have f: "fetch_fails (Rejected :: fixture list fetch_result)
     \<and> \<not> (cachedFixtures (serving venue_fixtures) \<noteq> None
          \<and> 61000 - fixturesTimestamp (serving venue_fixtures) < 60 * 1000)"
    by (simp add: fetch_fails_def serving_def)
  have eb: "fst (getBootstrapStatic 61000 (Response 503 None) (serving []))
              = Inl (BootstrapApiError 503)"
    by (simp add: getBootstrapStatic_def serving_def ok_def BOOTSTRAP_CACHE_MS_def)
  have ef: "fst (getFixtures 61000 Rejected (serving venue_fixtures)) = Inl TransportError"
    by (simp add: getFixtures_def serving_def FIXTURES_CACHE_MS_def)
  have v: "cachedBootstrap (serving []) = Some sample_bootstrap"
      "bootstrapTimestamp (serving []) = 1000"
      "cachedFixtures (serving venue_fixtures) = Some 0"
      "fixturesTimestamp (serving venue_fixtures) = 1000"
      "arrays (serving venue_fixtures) 0 = venue_fixtures"
    by (simp_all add: serving_def)
  show ?thesis
    using failed_refresh_keeps_entry [where ub = "Response 503 None" and s = "serving []"
        and now = 61000 and uf = "Response 503 None"] b
      failed_refresh_keeps_entry [where uf = Rejected and s = "serving venue_fixtures"
        and now = 61000 and ub = Rejected] f eb ef v
    by simp
qed


section \<open>Properties of the request handlers\<close>

text \<open>
  C7. When the dataset is obtained, the answer to GET /api/players is 200 with one projected
  player per upstream element and one id-and-name pair per upstream team, both in upstream
  order.
\<close>

theorem players_response:
  assumes "getBootstrapStatic now upstream s = (Inr data, s')"
  shows "\<exists>players simpleTeams.
     players_handler now upstream s = (Json 200 (PlayersBody players simpleTeams), s')
   \<and> length players = length (or_empty (elements data))
   \<and> (\<forall>i < length players.
         players ! i = mapPlayer (or_empty (elements data) ! i)
                         (or_empty (teams data)) (or_empty (element_types data)))
   \<and> length simpleTeams = length (or_empty (teams data))
   \<and> (\<forall>i < length simpleTeams.
         simpleTeams ! i = \<lparr> st_id = t_id (or_empty (teams data) ! i),
                             st_name = t_name (or_empty (teams data) ! i) \<rparr>)"
  using assms by (simp add: players_handler_def Let_def)

theorem players_response_witness:
  "\<exists>players simpleTeams.
     fst (players_handler 5000 (Response 200 (Some sample_bootstrap)) initial)
       = Json 200 (PlayersBody players simpleTeams)
   \<and> length players = 3
   \<and> players ! 2 = mapPlayer (sample_player 12 3 4) sample_teams sample_types
   \<and> simpleTeams = [\<lparr> st_id = 1, st_name = ''Arsenal'' \<rparr>, \<lparr> st_id = 2, st_name = ''Chelsea'' \<rparr>]"
proof -
  let ?s' = "snd (getBootstrapStatic 5000 (Response 200 (Some sample_bootstrap)) initial)"
  have h: "getBootstrapStatic 5000 (Response 200 (Some sample_bootstrap)) initial
             = (Inr sample_bootstrap, ?s')"
    by (simp add: getBootstrapStatic_def initial_def ok_def)
  from players_response [OF h] obtain players simpleTeams where
    r: "players_handler 5000 (Response 200 (Some sample_bootstrap)) initial
          = (Json 200 (PlayersBody players simpleTeams), ?s')"
    and lp: "length players = length (or_empty (elements sample_bootstrap))"
    and np: "\<forall>i < length players.
         players ! i = mapPlayer (or_empty (elements sample_bootstrap) ! i)
                         (or_empty (teams sample_bootstrap))
                         (or_empty (element_types sample_bootstrap))"
    and lt: "length simpleTeams = length (or_empty (teams sample_bootstrap))"
    and nt: "\<forall>i < length simpleTeams.
         simpleTeams ! i = \<lparr> st_id = t_id (or_empty (teams sample_bootstrap) ! i),
                             st_name = t_name (or_empty (teams sample_bootstrap) ! i) \<rparr>"
    by blast
  have lp3: "length players = 3" using lp by (simp add: sample_bootstrap_def or_empty_def)
  have p2: "players ! 2 = mapPlayer (sample_player 12 3 4) sample_teams sample_types"
    using np lp3 by (simp add: sample_bootstrap_def or_empty_def)
  have lt2: "length simpleTeams = 2"
    using lt by (simp add: sample_bootstrap_def or_empty_def sample_teams_def)
  have "simpleTeams ! 0 = \<lparr> st_id = 1, st_name = ''Arsenal'' \<rparr>"
       "simpleTeams ! 1 = \<lparr> st_id = 2, st_name = ''Chelsea'' \<rparr>"
    using nt lt2 by (simp_all add: sample_bootstrap_def or_empty_def sample_teams_def)
  with lt2 have ts: "simpleTeams = [\<lparr> st_id = 1, st_name = ''Arsenal'' \<rparr>,
                                    \<lparr> st_id = 2, st_name = ''Chelsea'' \<rparr>]"
    by (cases simpleTeams; cases "tl simpleTeams"; cases "tl (tl simpleTeams)") auto
  from r have "fst (players_handler 5000 (Response 200 (Some sample_bootstrap)) initial)
       = Json 200 (PlayersBody players simpleTeams)" by simp
  with lp3 p2 ts show ?thesis by blast
qed

text \<open>
  C8. When the dataset is obtained, GET /api/player/:id compares the parsed number with the
  player ids by strict equality: with no such player the answer is 404 with an error
  field, otherwise it is 200 with the projection of the first player of that id.
\<close>

theorem player_lookup:
  assumes "getBootstrapStatic now upstream s = (Inr data, s')"
  shows "((\<forall>p \<in> set (or_empty (elements data)). \<not> strict_eq (p_id p) id') \<longrightarrow>
            player_handler id' now upstream s = (Json 404 (ErrorBody ''Player not found''), s'))
   \<and> ((\<exists>p \<in> set (or_empty (elements data)). strict_eq (p_id p) id') \<longrightarrow>
        (\<exists>p \<in> set (or_empty (elements data)). strict_eq (p_id p) id'
           \<and> find (\<lambda>p. strict_eq (p_id p) id') (or_empty (elements data)) = Some p
           \<and> player_handler id' now upstream s
               = (Json 200 (PlayerBody (mapPlayer p (or_empty (teams data))
                                          (or_empty (element_types data)))), s')))"
proof (intro conjI impI)
  assume "\<forall>p \<in> set (or_empty (elements data)). \<not> strict_eq (p_id p) id'"
  then have "find (\<lambda>p. strict_eq (p_id p) id') (or_empty (elements data)) = None"
    by (simp add: find_None_iff)
  with assms show "player_handler id' now upstream s
                     = (Json 404 (ErrorBody ''Player not found''), s')"
    by (simp add: player_handler_def Let_def)
next
  assume "\<exists>p \<in> set (or_empty (elements data)). strict_eq (p_id p) id'"
  then have "find (\<lambda>p. strict_eq (p_id p) id') (or_empty (elements data)) \<noteq> None"
    by (auto simp: find_None_iff)
  then obtain p where
    f: "find (\<lambda>p. strict_eq (p_id p) id') (or_empty (elements data)) = Some p" by blast
  then have "p \<in> set (or_empty (elements data))" "strict_eq (p_id p) id'"
    by (auto simp: find_Some_iff)
  moreover from assms f have "player_handler id' now upstream s
      = (Json 200 (PlayerBody (mapPlayer p (or_empty (teams data))
                                 (or_empty (element_types data)))), s')"
    by (simp add: player_handler_def Let_def)
  ultimately show "\<exists>p \<in> set (or_empty (elements data)). strict_eq (p_id p) id'
           \<and> find (\<lambda>p. strict_eq (p_id p) id') (or_empty (elements data)) = Some p
           \<and> player_handler id' now upstream s
               = (Json 200 (PlayerBody (mapPlayer p (or_empty (teams data))
                                          (or_empty (element_types data)))), s')"
    using f by blast
qed

theorem player_lookup_witness:
  "fst (player_handler (Finite 999999) 5000 (Response 200 (Some sample_bootstrap)) initial)
     = Json 404 (ErrorBody ''Player not found'')
   \<and> fst (player_handler NaN 5000 (Response 200 (Some sample_bootstrap)) initial)
     = Json 404 (ErrorBody ''Player not found'')
   \<and> fst (player_handler (Finite 11) 5000 (Response 200 (Some sample_bootstrap)) initial)
     = Json 200 (PlayerBody (mapPlayer (sample_player 11 2 1) sample_teams sample_types))"
proof -
  let ?s' = "snd (getBootstrapStatic 5000 (Response 200 (Some sample_bootstrap)) initial)"
  let ?els = "or_empty (elements sample_bootstrap)"
  have h: "getBootstrapStatic 5000 (Response 200 (Some sample_bootstrap)) initial
             = (Inr sample_bootstrap, ?s')"
    by (simp add: getBootstrapStatic_def initial_def ok_def)
  have els: "?els = [sample_player 10 1 1, sample_player 11 2 1, sample_player 12 3 4]"
       "or_empty (teams sample_bootstrap) = sample_teams"
       "or_empty (element_types sample_bootstrap) = sample_types"
    by (simp_all add: sample_bootstrap_def or_empty_def)
  have none1: "\<forall>p \<in> set ?els. \<not> strict_eq (p_id p) (Finite 999999)"
    unfolding els by (simp add: sample_player_def strict_eq_def)
  have none2: "\<forall>p \<in> set ?els. \<not> strict_eq (p_id p) NaN"
    unfolding els by (simp add: sample_player_def strict_eq_def)
  have some: "\<exists>p \<in> set ?els. strict_eq (p_id p) (Finite 11)"
    unfolding els by (simp add: sample_player_def strict_eq_def)
  have first: "\<And>p. find (\<lambda>p. strict_eq (p_id p) (Finite 11)) ?els = Some p
                 \<Longrightarrow> p = sample_player 11 2 1"
    unfolding els by (simp add: sample_player_def strict_eq_def)
  have a: "player_handler (Finite 999999) 5000 (Response 200 (Some sample_bootstrap)) initial
             = (Json 404 (ErrorBody ''Player not found''), ?s')"
    using player_lookup [OF h, of "Finite 999999"] none1 by blast
  have b: "player_handler NaN 5000 (Response 200 (Some sample_bootstrap)) initial
             = (Json 404 (ErrorBody ''Player not found''), ?s')"
    using player_lookup [OF h, of NaN] none2 by blast
  have c: "player_handler (Finite 11) 5000 (Response 200 (Some sample_bootstrap)) initial
             = (Json 200 (PlayerBody (mapPlayer (sample_player 11 2 1) sample_teams
                  sample_types)), ?s')"
    using player_lookup [OF h, of "Finite 11"] some first unfolding els(2,3) by blast
  show ?thesis by (simp only: a b c fst_conv simp_thms)
qed

text \<open>
  C5 (as amended). When the path parameter is not a number or is zero, the answer to
  GET /api/team-fixtures/:teamId is 400 with an error field, and the state, with its log of
  upstream requests, is as before: nothing is fetched.
\<close>

theorem invalid_team_id:
  assumes "teamId = NaN \<or> teamId = Finite 0"
  shows "team_fixtures_handler teamId now ub uf s = (Json 400 (ErrorBody ''Invalid team id''), s)"
  using assms by (auto simp: team_fixtures_handler_def)

theorem invalid_team_id_witness:
  "team_fixtures_handler NaN 5000 Rejected Rejected initial
     = (Json 400 (ErrorBody ''Invalid team id''), initial)
   \<and> team_fixtures_handler (Finite 0) 5000 Rejected Rejected initial
     = (Json 400 (ErrorBody ''Invalid team id''), initial)"
proof -
  have "NaN = NaN \<or> NaN = Finite 0" by simp
  moreover have "Finite 0 = NaN \<or> Finite 0 = Finite 0" by simp
  ultimately show ?thesis
    using invalid_team_id [of NaN 5000 Rejected Rejected initial]
      invalid_team_id [of "Finite 0" 5000 Rejected Rejected initial]
    by blast
qed

text \<open>
  C5 as stated fails for a negative id: it passes the check, both resources are fetched and
  the answer is 404.
\<close>

theorem invalid_team_id_counterexample:
  "fst (team_fixtures_handler (Finite (- 1)) 5000 (Response 200 (Some sample_bootstrap))
          (Response 200 (Some venue_fixtures)) initial)
     = Json 404 (ErrorBody ''Team not found'')
   \<and> fetched (snd (team_fixtures_handler (Finite (- 1)) 5000
          (Response 200 (Some sample_bootstrap)) (Response 200 (Some venue_fixtures)) initial))
     = [bootstrap_url, fixtures_url]"
  by (simp add: team_fixtures_handler_def getBootstrapStatic_def getFixtures_def alloc_def
      initial_def ok_def or_empty_def sample_bootstrap_def sample_teams_def strict_eq_def
      Let_def)


section \<open>Frame of the fixtures request\<close>

lemma getBootstrapStatic_frame:
  "arrays (snd (getBootstrapStatic now ub s)) = arrays s
   \<and> next_ref (snd (getBootstrapStatic now ub s)) = next_ref s
   \<and> cachedFixtures (snd (getBootstrapStatic now ub s)) = cachedFixtures s
   \<and> fixturesTimestamp (snd (getBootstrapStatic now ub s)) = fixturesTimestamp s"
  by (simp add: getBootstrapStatic_def Let_def split: fetch_result.splits option.splits)

lemma getFixtures_frame:
  "cachedBootstrap (snd (getFixtures now uf s)) = cachedBootstrap s
   \<and> bootstrapTimestamp (snd (getFixtures now uf s)) = bootstrapTimestamp s"
  by (simp add: getFixtures_def alloc_def Let_def split: fetch_result.splits option.splits)

lemma getBootstrapStatic_allocated:
  "allocated s \<Longrightarrow> allocated (snd (getBootstrapStatic now ub s))"
  by (simp add: allocated_def getBootstrapStatic_frame split: option.splits)

lemma getFixtures_allocated:
  "allocated s \<Longrightarrow> allocated (snd (getFixtures now uf s))"
  by (simp add: allocated_def getFixtures_def alloc_def Let_def
      split: fetch_result.splits option.splits)

lemma refreshed_allocated: "allocated s \<Longrightarrow> allocated (refreshed now ub uf s)"
  by (simp add: refreshed_def getBootstrapStatic_allocated getFixtures_allocated)

lemma initial_allocated: "allocated initial"
  by (simp add: allocated_def initial_def)

lemma team_fixtures_frame:
  "cachedBootstrap (snd (team_fixtures teamId teamMap a s)) = cachedBootstrap s
   \<and> bootstrapTimestamp (snd (team_fixtures teamId teamMap a s)) = bootstrapTimestamp s
   \<and> cachedFixtures (snd (team_fixtures teamId teamMap a s)) = cachedFixtures s
   \<and> fixturesTimestamp (snd (team_fixtures teamId teamMap a s)) = fixturesTimestamp s
   \<and> fetched (snd (team_fixtures teamId teamMap a s)) = fetched s
   \<and> (\<forall>b < next_ref s. arrays (snd (team_fixtures teamId teamMap a s)) b = arrays s b)"
  by (simp add: team_fixtures_def select_fixtures_eq)

lemma handler_state:
  assumes "truthy teamId"
  shows "snd (team_fixtures_handler teamId now ub uf s) = refreshed now ub uf s
    \<or> (\<exists>teamMap a. snd (team_fixtures_handler teamId now ub uf s)
                      = snd (team_fixtures teamId teamMap a (refreshed now ub uf s)))"
proof -
  obtain rb s1 where b: "getBootstrapStatic now ub s = (rb, s1)" by (cases "getBootstrapStatic now ub s")
  obtain rf s2 where f: "getFixtures now uf s1 = (rf, s2)" by (cases "getFixtures now uf s1")
  have r: "refreshed now ub uf s = s2" by (simp add: refreshed_def b f)
  show ?thesis
  proof (cases rb)
    case (Inl e)
    then show ?thesis using assms b f r by (simp add: team_fixtures_handler_def)
  next
    case (Inr bootstrap')
    note rb = this
    show ?thesis
    proof (cases rf)
      case (Inl e)
      then show ?thesis using assms b f r rb by (simp add: team_fixtures_handler_def)
    next
      case (Inr fixtures)
      show ?thesis
      proof (cases "find (\<lambda>t. strict_eq (t_id t) teamId) (or_empty (teams bootstrap'))")
        case None
        then show ?thesis using assms b f r rb Inr
          by (simp add: team_fixtures_handler_def Let_def)
      next
        case (Some team')
        then have "snd (team_fixtures_handler teamId now ub uf s)
            = snd (team_fixtures teamId (team_map (or_empty (teams bootstrap'))) fixtures s2)"
          using assms b f rb Inr by (simp add: team_fixtures_handler_def Let_def split_def)
        then show ?thesis using r by blast
      qed
    qed
  qed
qed

lemma team_fixtures_handler_allocated:
  assumes "allocated s"
  shows "allocated (snd (team_fixtures_handler teamId now ub uf s))"
proof (cases "truthy teamId")
  case False
  then show ?thesis using assms by (simp add: team_fixtures_handler_def)
next
  case True
  have R: "allocated (refreshed now ub uf s)" using assms by (rule refreshed_allocated)
  have "allocated (snd (team_fixtures teamId teamMap a (refreshed now ub uf s)))" for teamMap a
    using R by (auto simp: allocated_def team_fixtures_def select_fixtures_eq
        split: option.splits)
  then show ?thesis using handler_state [OF True, of now ub uf s] R by auto
qed

text \<open>
  C9. A request to GET /api/team-fixtures/:teamId changes the caches only through the two
  cache calls: after it, both cache variables and timestamps are those left by the cache
  calls, every array that existed then has its content unchanged, and so has the array the
  fixtures cache refers to. In particular a fixtures array served from the cache is the
  same array with the same content as before the request.
\<close>

theorem fixtures_request_frame:
  assumes "allocated s"
  shows "(\<not> truthy teamId \<longrightarrow> snd (team_fixtures_handler teamId now ub uf s) = s)
    \<and> (truthy teamId \<longrightarrow>
          cachedBootstrap (snd (team_fixtures_handler teamId now ub uf s))
            = cachedBootstrap (refreshed now ub uf s)
        \<and> bootstrapTimestamp (snd (team_fixtures_handler teamId now ub uf s))
            = bootstrapTimestamp (refreshed now ub uf s)
        \<and> cachedFixtures (snd (team_fixtures_handler teamId now ub uf s))
            = cachedFixtures (refreshed now ub uf s)
        \<and> fixturesTimestamp (snd (team_fixtures_handler teamId now ub uf s))
            = fixturesTimestamp (refreshed now ub uf s)
        \<and> (\<forall>a < next_ref (refreshed now ub uf s).
              arrays (snd (team_fixtures_handler teamId now ub uf s)) a
                = arrays (refreshed now ub uf s) a)
        \<and> (\<forall>a. cachedFixtures (snd (team_fixtures_handler teamId now ub uf s)) = Some a \<longrightarrow>
              arrays (snd (team_fixtures_handler teamId now ub uf s)) a
                = arrays (refreshed now ub uf s) a))
    \<and> (\<forall>a. cachedFixtures s = Some a \<and> now - fixturesTimestamp s < 60 * 1000 \<longrightarrow>
          cachedFixtures (snd (team_fixtures_handler teamId now ub uf s)) = Some a
        \<and> arrays (snd (team_fixtures_handler teamId now ub uf s)) a = arrays s a)
    \<and> (\<forall>d. cachedBootstrap s = Some d \<and> now - bootstrapTimestamp s < 60 * 1000 \<longrightarrow>
          cachedBootstrap (snd (team_fixtures_handler teamId now ub uf s)) = Some d)"
proof -
  let ?H = "snd (team_fixtures_handler teamId now ub uf s)"
  let ?R = "refreshed now ub uf s"
  have falsy: "\<not> truthy teamId \<Longrightarrow> ?H = s"
    by (simp add: team_fixtures_handler_def)
  have allocR: "allocated ?R" using assms by (rule refreshed_allocated)
  have frame: "cachedBootstrap ?H = cachedBootstrap ?R
        \<and> bootstrapTimestamp ?H = bootstrapTimestamp ?R
        \<and> cachedFixtures ?H = cachedFixtures ?R
        \<and> fixturesTimestamp ?H = fixturesTimestamp ?R
        \<and> (\<forall>a < next_ref ?R. arrays ?H a = arrays ?R a)" if "truthy teamId"
    using handler_state [OF that, of now ub uf s] team_fixtures_frame by auto
  have cached: "\<forall>a. cachedFixtures ?H = Some a \<longrightarrow> arrays ?H a = arrays ?R a"
    if t: "truthy teamId"
  proof (intro allI impI)
    fix a assume "cachedFixtures ?H = Some a"
    then have "cachedFixtures ?R = Some a" using frame [OF t] by simp
    then have "a < next_ref ?R" using allocR by (simp add: allocated_def)
    then show "arrays ?H a = arrays ?R a" using frame [OF t] by blast
  qed
  have hitf: "cachedFixtures ?H = Some a \<and> arrays ?H a = arrays s a"
    if h: "cachedFixtures s = Some a \<and> now - fixturesTimestamp s < 60 * 1000" for a
  proof (cases "truthy teamId")
    case False
    then show ?thesis using falsy h by simp
  next
    case True
    let ?s1 = "snd (getBootstrapStatic now ub s)"
    have "cachedFixtures ?s1 = Some a" "now - fixturesTimestamp ?s1 < FIXTURES_CACHE_MS"
         "arrays ?s1 = arrays s"
      using h by (simp_all add: getBootstrapStatic_frame FIXTURES_CACHE_MS_def)
    then have R: "?R = ?s1" "cachedFixtures ?R = Some a" "arrays ?R a = arrays s a"
      by (simp_all add: refreshed_def getFixtures_hit)
    then have "cachedFixtures ?H = Some a" using frame [OF True] by simp
    moreover then have "arrays ?H a = arrays ?R a" using cached [OF True] by blast
    ultimately show ?thesis using R by simp
  qed
  have hitb: "cachedBootstrap ?H = Some d"
    if h: "cachedBootstrap s = Some d \<and> now - bootstrapTimestamp s < 60 * 1000" for d
  proof (cases "truthy teamId")
    case False
    then show ?thesis using falsy h by simp
  next
    case True
    have "getBootstrapStatic now ub s = (Inr d, s)"
      using h by (simp add: getBootstrapStatic_hit BOOTSTRAP_CACHE_MS_def)
    then have "cachedBootstrap ?R = Some d"
      using h by (simp add: refreshed_def getFixtures_frame)
    then show ?thesis using frame [OF True] by simp
  qed
  show ?thesis using falsy frame cached hitf hitb by blast
qed

theorem fixtures_request_frame_witness:
  "allocated (serving sentinel_fixtures)
   \<and> cachedFixtures (snd (team_fixtures_handler (Finite 1) 2000 Rejected Rejected
         (serving sentinel_fixtures))) = Some 0
   \<and> arrays (snd (team_fixtures_handler (Finite 1) 2000 Rejected Rejected
         (serving sentinel_fixtures))) 0 = sentinel_fixtures
   \<and> cachedBootstrap (snd (team_fixtures_handler (Finite 1) 2000 Rejected Rejected
         (serving sentinel_fixtures))) = Some sample_bootstrap"
proof -
  have a: "allocated (serving sentinel_fixtures)" by (simp add: allocated_def serving_def)
  have f: "cachedFixtures (serving sentinel_fixtures) = Some 0
           \<and> 2000 - fixturesTimestamp (serving sentinel_fixtures) < 60 * 1000"
    by (simp add: serving_def)
  have b: "cachedBootstrap (serving sentinel_fixtures) = Some sample_bootstrap
           \<and> 2000 - bootstrapTimestamp (serving sentinel_fixtures) < 60 * 1000"
    by (simp add: serving_def)
  have c: "arrays (serving sentinel_fixtures) 0 = sentinel_fixtures" by (simp add: serving_def)
  show ?thesis
    using fixtures_request_frame [OF a, of "Finite 1" 2000 Rejected Rejected] a f b c
    by metis
qed

text \<open>
  The same request answers with the sorted fixtures, and \<open>sort\<close> called on the cached array
  itself would have reordered it: the frame above is a property of the chain, not of the
  store.
\<close>

lemma sorted_answer:
  "fst (team_fixtures_handler (Finite 1) 2000 Rejected Rejected (serving sentinel_fixtures))
     = Json 200 (TeamFixturesBody (Finite 1) ''Arsenal''
         (map (fixture_view (Finite 1) (team_map sample_teams))
            [sample_fixture 1 None 1 2, sample_fixture 3 (Some 0) 2 1,
             sample_fixture 2 (Some 1000) 1 2]))"
proof -
  have r: "retained (Finite 1) 0 (serving sentinel_fixtures)
      = [sample_fixture 1 None 1 2, sample_fixture 3 (Some 0) 2 1,
         sample_fixture 2 (Some 1000) 1 2]"
    by (simp add: retained_sample sentinel_fixtures_def sample_fixture_def plays_def
        strict_eq_def event_or_999_def)
  have b: "getBootstrapStatic 2000 Rejected (serving sentinel_fixtures)
             = (Inr sample_bootstrap, serving sentinel_fixtures)"
    by (rule getBootstrapStatic_hit) (simp_all add: serving_def BOOTSTRAP_CACHE_MS_def)
  have f: "getFixtures 2000 Rejected (serving sentinel_fixtures)
             = (Inr 0, serving sentinel_fixtures)"
    by (rule getFixtures_hit) (simp_all add: serving_def FIXTURES_CACHE_MS_def)
  have t: "find (\<lambda>t. strict_eq (t_id t) (Finite 1)) sample_teams = Some (sample_teams ! 0)"
      "or_empty (teams sample_bootstrap) = sample_teams"
      "t_name (sample_teams ! 0) = ''Arsenal''"
    by (simp_all add: sample_bootstrap_def or_empty_def sample_teams_def strict_eq_def)
  have v: "fst (team_fixtures (Finite 1) (team_map sample_teams) 0 (serving sentinel_fixtures))
      = map (fixture_view (Finite 1) (team_map sample_teams))
            [sample_fixture 1 None 1 2, sample_fixture 3 (Some 0) 2 1,
             sample_fixture 2 (Some 1000) 1 2]"
    by (simp only: team_fixtures_eq r)
  show ?thesis
    by (simp add: team_fixtures_handler_def b f t split_def Let_def v)
qed

lemma sort_in_place:
  "map f_id (arrays (serving sentinel_fixtures) 0) = [1, 2, 3]
   \<and> map f_id (arrays (snd (array_sort compare_event 0 (serving sentinel_fixtures))) 0)
       = [1, 3, 2]"
  by (simp add: array_sort_def sort_by_compare_event serving_def sentinel_fixtures_def
      sample_fixture_def event_or_999_def)


end
